theory Spec2Isabelle
  imports Complex_Main "HOL-Library.AList" "HOL-Library.Multiset"
begin

section \<open>Numbers\<close>

text \<open>
  A JavaScript number is modelled as a real: sums, products and comparisons are exact,
  with no rounding and no overflow, and every number stored is finite. Where the source
  divides, HOL's \<open>x / 0 = 0\<close> is not what JavaScript computes (\<open>Infinity\<close> or
  \<open>NaN\<close>), so every theorem of a claim that depends on a quotient either has a
  non-zero constant as divisor or carries the hypothesis that the divisor is not zero.
  The defense planner, whose scores do become \<open>NaN\<close>, uses the four-valued type
  \<open>jsnum\<close> of its own section. Calls of \<open>console.log\<close> are left out throughout.
\<close>

section \<open>ImpactPhysics (src/supabaseClient.js)\<close>

record material =
  density :: real
  strength :: real
  porosity :: real

definition MEGATON_TNT :: real where
  "MEGATON_TNT = 4184 * 10 ^ 12"

definition rock :: material where
  "rock = \<lparr>density = 3000, strength = 10 ^ 7, porosity = 1 / 10\<rparr>"

text \<open>
  The table \<open>this.materialProperties\<close> of the constructor, keyed by composition. A
  lookup finds the keys written in the table; the names every JavaScript object inherits
  (\<open>constructor\<close>, \<open>toString\<close> and the like) are not compositions and are taken as
  absent, here and in \<open>densities\<close> below.
\<close>

definition materialProperties :: "string \<rightharpoonup> material" where
  "materialProperties =
     [''rock'' \<mapsto> rock,
      ''iron'' \<mapsto> \<lparr>density = 7800, strength = 3 * 10 ^ 8, porosity = 2 / 100\<rparr>,
      ''carbonaceous'' \<mapsto> \<lparr>density = 2000, strength = 5 * 10 ^ 6, porosity = 2 / 10\<rparr>,
      ''ice'' \<mapsto> \<lparr>density = 1000, strength = 10 ^ 6, porosity = 5 / 100\<rparr>]"

text \<open>
  \<open>getMaterialProperty(composition, property)\<close>: the entry of the table, or the entry of
  \<open>rock\<close> when the composition is not a key. The property is passed as the field selector.
\<close>

definition getMaterialProperty :: "string \<Rightarrow> (material \<Rightarrow> 'a) \<Rightarrow> 'a" where
  "getMaterialProperty composition property =
     property (case materialProperties composition of Some m \<Rightarrow> m | None \<Rightarrow> rock)"

text \<open>
  \<open>calculateKineticEnergy(diameter, velocity, composition = 'rock')\<close>: an omitted
  composition (\<open>None\<close>) takes the default parameter value.
\<close>

definition calculateKineticEnergy :: "real \<Rightarrow> real \<Rightarrow> string option \<Rightarrow> real" where
  "calculateKineticEnergy diameter velocity composition =
     (let density = getMaterialProperty (case composition of None \<Rightarrow> ''rock'' | Some c \<Rightarrow> c) density;
          radius = (diameter * 1000) / 2;
          volume = (4 / 3) * pi * radius ^ 3;
          mass = density * volume;
          velocityMS = velocity * 1000
      in (1 / 2) * mass * velocityMS ^ 2)"

definition calculateTorinoScale :: "real \<Rightarrow> real \<Rightarrow> real \<Rightarrow> nat" where
  "calculateTorinoScale diameter probability energy =
     (let energyMT = energy / MEGATON_TNT in
      if probability < 1 / 10000 then 0
      else if energyMT < 1 / 10 then 1
      else if energyMT < 10 then (if probability > 1 / 100 then 3 else 2)
      else if energyMT < 100 then (if probability > 1 / 100 then 5 else 4)
      else if energyMT < 1000 then (if probability > 1 / 100 then 7 else 6)
      else (if probability > 1 / 100 then 9 else 8))"

section \<open>OrbitalMechanics (src/unnamed/part_000)\<close>

subsection \<open>The part of THREE.Vector3 the propagator calls\<close>

text \<open>
  three.js is a library outside the repository. \<open>applyAxisAngle\<close> turns a vector about
  an axis of length 1 by an angle: it builds the quaternion of the turn and applies it.
\<close>

datatype Vector3 = Vector3 (vx: real) (vy: real) (vz: real)

datatype Quaternion = Quaternion (qx: real) (qy: real) (qz: real) (qw: real)

definition setFromAxisAngle :: "Vector3 \<Rightarrow> real \<Rightarrow> Quaternion" where
  "setFromAxisAngle axis angle =
     (let halfAngle = angle / 2; s = sin halfAngle
      in Quaternion (vx axis * s) (vy axis * s) (vz axis * s) (cos halfAngle))"

definition applyQuaternion :: "Vector3 \<Rightarrow> Quaternion \<Rightarrow> Vector3" where
  "applyQuaternion v q =
     (let tx = 2 * (qy q * vz v - qz q * vy v);
          ty = 2 * (qz q * vx v - qx q * vz v);
          tz = 2 * (qx q * vy v - qy q * vx v)
      in Vector3 (vx v + qw q * tx + qy q * tz - qz q * ty)
                 (vy v + qw q * ty + qz q * tx - qx q * tz)
                 (vz v + qw q * tz + qx q * ty - qy q * tx))"

definition applyAxisAngle :: "Vector3 \<Rightarrow> Vector3 \<Rightarrow> real \<Rightarrow> Vector3" where
  "applyAxisAngle v axis angle = applyQuaternion v (setFromAxisAngle axis angle)"

definition add :: "Vector3 \<Rightarrow> Vector3 \<Rightarrow> Vector3" where
  "add v w = Vector3 (vx v + vx w) (vy v + vy w) (vz v + vz w)"


subsection \<open>The registry\<close>

text \<open>
  \<open>orbitParams\<close> is a partial object spread over the defaults: a key that is absent is
  \<open>None\<close> here and takes the default of \<open>registerOrbitalBody\<close>.
\<close>

record orbitParams =
  p_semiMajorAxis :: "real option"
  p_eccentricity :: "real option"
  p_inclination :: "real option"
  p_argumentOfPeriapsis :: "real option"
  p_longitudeOfAscendingNode :: "real option"
  p_trueAnomaly :: "real option"
  p_orbitalPeriod :: "real option"
  p_clockwise :: "bool option"

record orbit =
  semiMajorAxis :: real
  eccentricity :: real
  inclination :: real
  argumentOfPeriapsis :: real
  longitudeOfAscendingNode :: real
  trueAnomaly :: real
  orbitalPeriod :: real
  clockwise :: bool
  angularVelocity :: real

text \<open>
  An entry of the registry. \<open>object3D\<close> is a reference to the renderable object: the
  object itself lives outside the propagator, and only its \<open>position\<close> is written.
\<close>

record bodyData =
  object3D :: nat
  orbit :: orbit
  currentAnomaly :: real
  lastUpdate :: real

text \<open>
  The propagator: \<open>orbitalBodies\<close> is the \<open>Map\<close> in insertion order (\<open>Map.set\<close> is
  \<open>AList.update\<close>: an existing key keeps its place, a new key goes last), and
  \<open>positions\<close> holds the \<open>position\<close> of every renderable object, by reference, so that
  two bodies registered with one object share it.
\<close>

record OrbitalMechanics =
  earthCenter :: Vector3
  orbitalBodies :: "(string \<times> bodyData) list"
  positions :: "nat \<Rightarrow> Vector3"

text \<open>The constructor, over the renderable objects that exist.\<close>

definition new_OrbitalMechanics :: "(nat \<Rightarrow> Vector3) \<Rightarrow> OrbitalMechanics" where
  "new_OrbitalMechanics objs =
     \<lparr>earthCenter = Vector3 0 0 0, orbitalBodies = [], positions = objs\<rparr>"

definition orbit_radius :: "orbit \<Rightarrow> real \<Rightarrow> real" where
  "orbit_radius orb angle =
     (let a = semiMajorAxis orb; e = eccentricity orb
      in a * (1 - e * e) / (1 + e * cos angle))"

text \<open>
  The point of the orbit at an anomaly: the body of \<open>updateBodyPosition\<close> between reading
  the entry and writing the object, which \<open>createOrbitPath\<close> repeats for each angle.
\<close>

definition orbit_point :: "Vector3 \<Rightarrow> orbit \<Rightarrow> real \<Rightarrow> Vector3" where
  "orbit_point center orb angle =
     (let r = orbit_radius orb angle;
          position = Vector3 (r * cos angle) (r * sin angle) 0;
          position = (if inclination orb \<noteq> 0
                      then applyAxisAngle position (Vector3 1 0 0) (inclination orb)
                      else position);
          position = (if argumentOfPeriapsis orb \<noteq> 0
                      then applyAxisAngle position (Vector3 0 0 1) (argumentOfPeriapsis orb)
                      else position);
          position = (if longitudeOfAscendingNode orb \<noteq> 0
                      then applyAxisAngle position (Vector3 0 0 1) (longitudeOfAscendingNode orb)
                      else position)
      in add position center)"

definition updateBodyPosition :: "OrbitalMechanics \<Rightarrow> string \<Rightarrow> OrbitalMechanics" where
  "updateBodyPosition s ident =
     (case map_of (orbitalBodies s) ident of
        None \<Rightarrow> s
      | Some bodyData \<Rightarrow>
          s\<lparr>positions := (positions s)
               (object3D bodyData :=
                  orbit_point (earthCenter s) (orbit bodyData) (currentAnomaly bodyData))\<rparr>)"

definition registerOrbitalBody ::
  "OrbitalMechanics \<Rightarrow> string \<Rightarrow> nat \<Rightarrow> orbitParams \<Rightarrow> OrbitalMechanics" where
  "registerOrbitalBody s ident obj orbitParams =
     (let period = (case p_orbitalPeriod orbitParams of None \<Rightarrow> 100 | Some v \<Rightarrow> v);
          cw = (case p_clockwise orbitParams of None \<Rightarrow> False | Some v \<Rightarrow> v);
          w = (2 * pi) / period;
          orb = \<lparr>semiMajorAxis = (case p_semiMajorAxis orbitParams of None \<Rightarrow> 3 | Some v \<Rightarrow> v),
                 eccentricity = (case p_eccentricity orbitParams of None \<Rightarrow> 0 | Some v \<Rightarrow> v),
                 inclination = (case p_inclination orbitParams of None \<Rightarrow> 0 | Some v \<Rightarrow> v),
                 argumentOfPeriapsis =
                   (case p_argumentOfPeriapsis orbitParams of None \<Rightarrow> 0 | Some v \<Rightarrow> v),
                 longitudeOfAscendingNode =
                   (case p_longitudeOfAscendingNode orbitParams of None \<Rightarrow> 0 | Some v \<Rightarrow> v),
                 trueAnomaly = (case p_trueAnomaly orbitParams of None \<Rightarrow> 0 | Some v \<Rightarrow> v),
                 orbitalPeriod = period,
                 clockwise = cw,
                 angularVelocity = (if cw then w * (- 1) else w)\<rparr>;
          s' = s\<lparr>orbitalBodies :=
                   AList.update ident
                     \<lparr>object3D = obj, orbit = orb, currentAnomaly = trueAnomaly orb,
                      lastUpdate = 0\<rparr>
                     (orbitalBodies s)\<rparr>
      in updateBodyPosition s' ident)"

text \<open>
  The two \<open>while\<close> statements of \<open>updateOrbitalBody\<close>. Over the reals both end, after
  about \<open>|x| / (2 pi)\<close> turns; the measures count the turns left. The source runs them
  on doubles, where they end only while taking \<open>2 pi\<close> away changes the number: up to
  \<open>2^53\<close> doubles are at most 1 apart and each turn moves the anomaly, from about
  \<open>1e17\<close> on it does not and the call never returns. Every theorem below that reads
  the result of the two statements therefore bounds the anomaly they start from by
  \<open>2^53\<close>.
\<close>

function wrap_down :: "real \<Rightarrow> real" where
  "wrap_down x = (if x > 2 * pi then wrap_down (x - 2 * pi) else x)"
  by pat_completeness auto
termination
proof (relation "measure (\<lambda>x. nat \<lceil>x / (2 * pi)\<rceil>)")
  show "wf (measure (\<lambda>x. nat \<lceil>x / (2 * pi)\<rceil>))" by simp
next
  fix x :: real
  assume gt: "2 * pi < x"
  have eq: "(x - 2 * pi) / (2 * pi) = x / (2 * pi) - 1"
    by (simp add: diff_divide_distrib)
  have "1 < x / (2 * pi)" using gt by (simp add: pos_less_divide_eq)
  then have pos: "1 < \<lceil>x / (2 * pi)\<rceil>" by (simp add: less_ceiling_iff)
  have "\<lceil>(x - 2 * pi) / (2 * pi)\<rceil> = \<lceil>x / (2 * pi)\<rceil> - 1"
    unfolding eq by simp
  then have "nat \<lceil>(x - 2 * pi) / (2 * pi)\<rceil> < nat \<lceil>x / (2 * pi)\<rceil>"
    using pos by linarith
  then show "(x - 2 * pi, x) \<in> measure (\<lambda>x. nat \<lceil>x / (2 * pi)\<rceil>)"
    unfolding in_measure .
qed

function wrap_up :: "real \<Rightarrow> real" where
  "wrap_up x = (if x < 0 then wrap_up (x + 2 * pi) else x)"
  by pat_completeness auto
termination
proof (relation "measure (\<lambda>x. nat \<lceil>- x / (2 * pi)\<rceil>)")
  show "wf (measure (\<lambda>x. nat \<lceil>- x / (2 * pi)\<rceil>))" by simp
next
  fix x :: real
  assume lt: "x < 0"
  have eq: "- (x + 2 * pi) / (2 * pi) = - x / (2 * pi) - 1"
    by (simp add: diff_divide_distrib add_divide_distrib)
  have "x / (2 * pi) < 0" using lt by (intro divide_neg_pos) simp_all
  then have "0 < - x / (2 * pi)" by simp
  then have pos: "0 < \<lceil>- x / (2 * pi)\<rceil>" by (simp add: less_ceiling_iff)
  have "\<lceil>- (x + 2 * pi) / (2 * pi)\<rceil> = \<lceil>- x / (2 * pi)\<rceil> - 1"
    unfolding eq by simp
  then have "nat \<lceil>- (x + 2 * pi) / (2 * pi)\<rceil> < nat \<lceil>- x / (2 * pi)\<rceil>"
    using pos by linarith
  then show "(x + 2 * pi, x) \<in> measure (\<lambda>x. nat \<lceil>- x / (2 * pi)\<rceil>)"
    unfolding in_measure .
qed

declare wrap_down.simps [simp del]
declare wrap_up.simps [simp del]

definition updateOrbitalBody :: "OrbitalMechanics \<Rightarrow> string \<Rightarrow> real \<Rightarrow> OrbitalMechanics" where
  "updateOrbitalBody s ident deltaTime =
     (case map_of (orbitalBodies s) ident of
        None \<Rightarrow> s
      | Some bodyData \<Rightarrow>
          (let anomaly = currentAnomaly bodyData
                           + angularVelocity (orbit bodyData) * deltaTime;
               elapsed = lastUpdate bodyData + deltaTime;
               anomaly = wrap_down anomaly;
               anomaly = wrap_up anomaly;
               s' = s\<lparr>orbitalBodies :=
                        AList.update ident
                          (bodyData\<lparr>currentAnomaly := anomaly, lastUpdate := elapsed\<rparr>)
                          (orbitalBodies s)\<rparr>
           in updateBodyPosition s' ident))"

text \<open>\<open>update(deltaTime)\<close>: every body of the registry, in insertion order.\<close>

definition update :: "OrbitalMechanics \<Rightarrow> real \<Rightarrow> OrbitalMechanics" where
  "update s deltaTime =
     fold (\<lambda>ident s. updateOrbitalBody s ident deltaTime) (map fst (orbitalBodies s)) s"

text \<open>
  \<open>createOrbitPath(id, segments)\<close>: \<open>null\<close> for an unknown id, else the line through
  \<open>segments + 1\<close> points of the orbit (the line is given by its points; its material is
  constant). The caller that omits \<open>segments\<close> passes 64. With \<open>segments = 0\<close> the
  source divides zero by zero.
\<close>

definition createOrbitPath :: "OrbitalMechanics \<Rightarrow> string \<Rightarrow> nat \<Rightarrow> Vector3 list option" where
  "createOrbitPath s ident segments =
     (case map_of (orbitalBodies s) ident of
        None \<Rightarrow> None
      | Some bodyData \<Rightarrow>
          Some (map (\<lambda>i. orbit_point (earthCenter s) (orbit bodyData)
                            ((real i / real segments) * 2 * pi))
                    [0 ..< segments + 1]))"

definition removeOrbitalBody :: "OrbitalMechanics \<Rightarrow> string \<Rightarrow> OrbitalMechanics" where
  "removeOrbitalBody s ident = s\<lparr>orbitalBodies := AList.delete ident (orbitalBodies s)\<rparr>"

definition getOrbitalData :: "OrbitalMechanics \<Rightarrow> string \<Rightarrow> bodyData option" where
  "getOrbitalData s ident = map_of (orbitalBodies s) ident"

subsection \<open>Test fixtures and predicates of the statements\<close>

text \<open>Renderable objects as \<open>new THREE.Object3D()\<close> leaves them: at the origin.\<close>

definition initial_objects :: "nat \<Rightarrow> Vector3" where
  "initial_objects obj = Vector3 0 0 0"

text \<open>The call \<open>registerOrbitalBody(id, object3D, {})\<close>: every key absent.\<close>

definition defaults :: orbitParams where
  "defaults = \<lparr>p_semiMajorAxis = None, p_eccentricity = None, p_inclination = None,
     p_argumentOfPeriapsis = None, p_longitudeOfAscendingNode = None, p_trueAnomaly = None,
     p_orbitalPeriod = None, p_clockwise = None\<rparr>"





section \<open>DefenseSystems (src/defenseSystems.js)\<close>

subsection \<open>Numbers that may be infinite or NaN, and strings read as numbers\<close>

text \<open>
  The planner divides by the asteroid's mass and by the time to impact, reads fields that
  may be absent, and multiplies a string by a number. Its intermediate values are
  therefore modelled by \<open>jsnum\<close>: a real, an infinity or \<open>NaN\<close>, with the arithmetic and
  the comparisons of IEEE 754 on them. Zero has no sign here: a division by zero takes
  the sign of the dividend.
\<close>

datatype jsnum = Num real | PInf | NInf | NaN

definition inf_of :: "real \<Rightarrow> jsnum" where
  "inf_of a = (if a = 0 then NaN else if a > 0 then PInf else NInf)"

fun js_mul :: "jsnum \<Rightarrow> jsnum \<Rightarrow> jsnum" where
  "js_mul NaN y = NaN"
| "js_mul x NaN = NaN"
| "js_mul (Num a) (Num b) = Num (a * b)"
| "js_mul (Num a) PInf = inf_of a"
| "js_mul (Num a) NInf = inf_of (- a)"
| "js_mul PInf (Num b) = inf_of b"
| "js_mul NInf (Num b) = inf_of (- b)"
| "js_mul PInf PInf = PInf"
| "js_mul PInf NInf = NInf"
| "js_mul NInf PInf = NInf"
| "js_mul NInf NInf = PInf"

fun js_div :: "jsnum \<Rightarrow> jsnum \<Rightarrow> jsnum" where
  "js_div NaN y = NaN"
| "js_div x NaN = NaN"
| "js_div (Num a) (Num b) = (if b = 0 then inf_of a else Num (a / b))"
| "js_div (Num a) PInf = Num 0"
| "js_div (Num a) NInf = Num 0"
| "js_div PInf (Num b) = (if b < 0 then NInf else PInf)"
| "js_div NInf (Num b) = (if b < 0 then PInf else NInf)"
| "js_div PInf PInf = NaN"
| "js_div PInf NInf = NaN"
| "js_div NInf PInf = NaN"
| "js_div NInf NInf = NaN"

fun js_sqrt :: "jsnum \<Rightarrow> jsnum" where
  "js_sqrt (Num a) = (if a < 0 then NaN else Num (sqrt a))"
| "js_sqrt PInf = PInf"
| "js_sqrt NInf = NaN"
| "js_sqrt NaN = NaN"

text \<open>\<open>Math.pow\<close> with a constant whole exponent.\<close>

primrec js_pow :: "jsnum \<Rightarrow> nat \<Rightarrow> jsnum" where
  "js_pow x 0 = Num 1"
| "js_pow x (Suc n) = js_mul x (js_pow x n)"

fun js_gt :: "jsnum \<Rightarrow> jsnum \<Rightarrow> bool" where
  "js_gt NaN y = False"
| "js_gt x NaN = False"
| "js_gt (Num a) (Num b) = (a > b)"
| "js_gt PInf PInf = False"
| "js_gt PInf y = True"
| "js_gt x NInf = (x \<noteq> NInf)"
| "js_gt x PInf = False"
| "js_gt NInf y = False"

fun js_ge :: "jsnum \<Rightarrow> jsnum \<Rightarrow> bool" where
  "js_ge NaN y = False"
| "js_ge x NaN = False"
| "js_ge x y = (\<not> js_gt y x)"

fun js_neg :: "jsnum \<Rightarrow> jsnum" where
  "js_neg (Num a) = Num (- a)"
| "js_neg PInf = NInf"
| "js_neg NInf = PInf"
| "js_neg NaN = NaN"

text \<open>A field that may be absent, read as a number: \<open>undefined\<close> becomes \<open>NaN\<close>.\<close>

definition to_num :: "real option \<Rightarrow> jsnum" where
  "to_num v = (case v of None \<Rightarrow> NaN | Some r \<Rightarrow> Num r)"

text \<open>\<open>v || d\<close> on a numeric field: the default replaces an absent field and zero.\<close>

definition or_default :: "real option \<Rightarrow> real \<Rightarrow> real" where
  "or_default v d = (case v of None \<Rightarrow> d | Some r \<Rightarrow> if r = 0 then d else r)"

subsection \<open>Number to string and back\<close>

definition digit_char :: "nat \<Rightarrow> char" where
  "digit_char d = ''0123456789'' ! d"

fun nat_to_string :: "nat \<Rightarrow> string" where
  "nat_to_string n =
     (if n < 10 then [digit_char n] else nat_to_string (n div 10) @ [digit_char (n mod 10)])"

declare nat_to_string.simps [simp del]

text \<open>
  \<open>x.toFixed(1)\<close>: the sign, then the tenths nearest to \<open>|x|\<close> (the larger of two equally
  near), written with one digit after the point. From \<open>10^21\<close> on the source switches to
  exponent notation, which is left out: \<open>calculateDeflection\<close> formats a percentage.
\<close>

definition toFixed1 :: "real \<Rightarrow> string" where
  "toFixed1 x =
     (let s = (if x < 0 then ''-'' else []);
          n = nat \<lfloor>\<bar>x\<bar> * 10 + 1 / 2\<rfloor>
      in s @ nat_to_string (n div 10) @ ''.'' @ [digit_char (n mod 10)])"

definition is_digit :: "char \<Rightarrow> bool" where
  "is_digit c = (c \<in> set ''0123456789'')"

text \<open>Tab, line feed, vertical tab, form feed, carriage return and space.\<close>

definition is_space :: "char \<Rightarrow> bool" where
  "is_space c = ((of_char c :: nat) \<in> {9, 10, 11, 12, 13, 32})"

definition digits_value :: "string \<Rightarrow> nat" where
  "digits_value ds = foldl (\<lambda>acc c. 10 * acc + ((of_char c :: nat) - 48)) 0 ds"

text \<open>An unsigned decimal literal: digits, with or without a point and more digits.\<close>

definition parse_decimal :: "string \<Rightarrow> jsnum" where
  "parse_decimal u =
     (let ip = takeWhile is_digit u in
      case dropWhile is_digit u of
        [] \<Rightarrow> (if ip = [] then NaN else Num (real (digits_value ip)))
      | c # fp \<Rightarrow>
          (if c = CHR ''.'' \<and> list_all is_digit fp \<and> \<not> (ip = [] \<and> fp = [])
           then Num (real (digits_value ip) + real (digits_value fp) / 10 ^ length fp)
           else NaN))"

text \<open>
  What \<open>*\<close> makes of a string operand (\<open>ToNumber\<close>): white space around is dropped, the
  empty string is 0, a signed decimal literal is its value, and any other string is
  \<open>NaN\<close>. JavaScript also reads exponents, radix prefixes and \<open>Infinity\<close>; those
  literals are not produced by \<open>toFixed\<close> below \<open>10^21\<close> and are \<open>NaN\<close> here.
\<close>

definition string_to_number :: "string \<Rightarrow> jsnum" where
  "string_to_number s =
     (let t = rev (dropWhile is_space (rev (dropWhile is_space s))) in
      case t of
        [] \<Rightarrow> Num 0
      | c # u \<Rightarrow>
          if c = CHR ''-'' then js_neg (parse_decimal u)
          else if c = CHR ''+'' then parse_decimal u
          else parse_decimal t)"

subsection \<open>The catalog and the deflection of one asteroid\<close>

record defenseMethod =
  dm_name :: string
  dm_description :: string
  dm_effectiveness :: real
  dm_cost :: real
  dm_developmentTime :: real
  dm_successRate :: real
  dm_technologyReadiness :: real

text \<open>\<open>this.defenseMethods\<close>, in the order of its keys.\<close>

definition defenseMethods :: "(string \<times> defenseMethod) list" where
  "defenseMethods =
     [(''KINETIC_IMPACTOR'',
        \<lparr>dm_name = ''Kinetic Impactor'',
         dm_description = ''Spacecraft collides with asteroid to change its velocity'',
         dm_effectiveness = 7 / 10, dm_cost = 500, dm_developmentTime = 5,
         dm_successRate = 85 / 100, dm_technologyReadiness = 9\<rparr>),
      (''GRAVITY_TRACTOR'',
        \<lparr>dm_name = ''Gravity Tractor'',
         dm_description = ''Spacecraft uses gravity to slowly pull asteroid'',
         dm_effectiveness = 4 / 10, dm_cost = 800, dm_developmentTime = 8,
         dm_successRate = 95 / 100, dm_technologyReadiness = 6\<rparr>),
      (''NUCLEAR_DEVICE'',
        \<lparr>dm_name = ''Nuclear Disruption'',
         dm_description = ''Nuclear explosion to fragment or deflect asteroid'',
         dm_effectiveness = 9 / 10, dm_cost = 2000, dm_developmentTime = 3,
         dm_successRate = 75 / 100, dm_technologyReadiness = 7\<rparr>),
      (''LASER_ABLATION'',
        \<lparr>dm_name = ''Laser Ablation'',
         dm_description = ''Lasers vaporize asteroid surface to create thrust'',
         dm_effectiveness = 6 / 10, dm_cost = 1200, dm_developmentTime = 10,
         dm_successRate = 80 / 100, dm_technologyReadiness = 4\<rparr>),
      (''ION_BEAM'',
        \<lparr>dm_name = ''Ion Beam Shepherd'',
         dm_description = ''Ion engines directed at asteroid surface'',
         dm_effectiveness = 5 / 10, dm_cost = 1500, dm_developmentTime = 12,
         dm_successRate = 88 / 100, dm_technologyReadiness = 3\<rparr>)]"

text \<open>An asteroid record as the planner reads it; any field may be absent.\<close>

record asteroid =
  name :: "string option"
  diameter :: "real option"
  velocity :: "real option"
  composition :: "string option"
  impactProbability :: "real option"

datatype error = UnknownDefenseMethod string | TypeError

text \<open>\<open>toLowerCase\<close> on the letters A to Z; other characters are kept.\<close>

definition toLowerCase :: "string \<Rightarrow> string" where
  "toLowerCase s =
     map (\<lambda>c. case map_of (zip ''ABCDEFGHIJKLMNOPQRSTUVWXYZ''
                                  ''abcdefghijklmnopqrstuvwxyz'') c of
                 None \<Rightarrow> c | Some l \<Rightarrow> l) s"

definition densities :: "string \<rightharpoonup> real" where
  "densities =
     [''stony'' \<mapsto> 3000, ''iron'' \<mapsto> 7800, ''carbonaceous'' \<mapsto> 2000,
      ''metal'' \<mapsto> 7800, ''rock'' \<mapsto> 3000, ''ice'' \<mapsto> 1000]"

definition getDensity :: "string option \<Rightarrow> real" where
  "getDensity compo =
     (case compo of
        None \<Rightarrow> 3000
      | Some c \<Rightarrow> (case densities (toLowerCase c) of None \<Rightarrow> 3000 | Some d \<Rightarrow> d))"

definition calculateAsteroidMass :: "asteroid \<Rightarrow> jsnum" where
  "calculateAsteroidMass asteroidData =
     (let density = getDensity (composition asteroidData);
          radius = js_mul (to_num (diameter asteroidData)) (Num 500);
          volume = js_mul (Num ((4 / 3) * pi)) (js_pow radius 3)
      in js_mul (Num density) volume)"

definition calculateRequiredDeltaV :: "asteroid \<Rightarrow> real \<Rightarrow> jsnum" where
  "calculateRequiredDeltaV asteroidData timeToImpact =
     (let earthRadius = 6371000; safetyMargin = 2
      in js_div (Num (earthRadius * safetyMargin)) (Num (timeToImpact * 31536000)))"

definition calculateKineticDeflection :: "jsnum \<Rightarrow> real \<Rightarrow> jsnum" where
  "calculateKineticDeflection asteroidMass timeToImpact =
     (let impactorMass = 500; impactorVelocity = 6000;
          momentumTransfer = impactorMass * impactorVelocity * (34 / 10)
      in js_div (Num momentumTransfer) asteroidMass)"

definition calculateGravityTractorDeflection :: "jsnum \<Rightarrow> real \<Rightarrow> jsnum" where
  "calculateGravityTractorDeflection asteroidMass timeToImpact =
     (let spacecraftMass = 20000; standoffDistance = 50;
          G = 667430 / 10 ^ 16;
          acceleration = (G * spacecraftMass) / standoffDistance ^ 2
      in Num (acceleration * timeToImpact * 31536000))"

definition calculateNuclearDeflection :: "jsnum \<Rightarrow> real \<Rightarrow> jsnum" where
  "calculateNuclearDeflection asteroidMass timeToImpact =
     (let energy = 10 ^ 15; efficiency = 1 / 10
      in js_sqrt (js_div (Num (2 * energy * efficiency)) asteroidMass))"

definition calculateLaserDeflection :: "jsnum \<Rightarrow> real \<Rightarrow> jsnum" where
  "calculateLaserDeflection asteroidMass timeToImpact =
     (let laserPower = 10 ^ 6; specificImpulse = 1000; efficiency = 1 / 100;
          thrust = (2 * laserPower * efficiency) / (specificImpulse * (981 / 100));
          acceleration = js_div (Num thrust) asteroidMass
      in js_mul (js_mul acceleration (Num timeToImpact)) (Num 31536000))"

definition calculateIonBeamDeflection :: "jsnum \<Rightarrow> real \<Rightarrow> jsnum" where
  "calculateIonBeamDeflection asteroidMass timeToImpact =
     (let ionPower = 5 * 10 ^ 5; specificImpulse = 3000; efficiency = 7 / 1000;
          thrust = (2 * ionPower * efficiency) / (specificImpulse * (981 / 100));
          acceleration = js_div (Num thrust) asteroidMass
      in js_mul (js_mul acceleration (Num timeToImpact)) (Num 31536000))"

definition calculateTimeFactor :: "real \<Rightarrow> real" where
  "calculateTimeFactor timeToImpact =
     (if timeToImpact \<ge> 20 then 1
      else if timeToImpact \<ge> 10 then 9 / 10
      else if timeToImpact \<ge> 5 then 7 / 10
      else if timeToImpact \<ge> 2 then 5 / 10
      else if timeToImpact \<ge> 1 then 3 / 10
      else 1 / 10)"

text \<open>
  The result of \<open>calculateDeflection\<close>. The fields \<open>requiredDeltaV\<close>, \<open>achievableDeltaV\<close>,
  \<open>missDistance\<close>, \<open>cost\<close>, \<open>recommendation\<close> and \<open>riskAssessment\<close> are texts formatted for
  display from the same numbers; the planner reads none of them and they are left out.
  \<open>df_successProbability\<close> is the text the source stores: a percentage with its sign.
\<close>

record deflection =
  df_method :: string
  df_description :: string
  df_successProbability :: string
  df_willMiss :: bool
  df_timeRequired :: real
  df_technologyReadiness :: real

definition calculateDeflection :: "asteroid \<Rightarrow> string \<Rightarrow> real \<Rightarrow> error + deflection" where
  "calculateDeflection asteroidData defenseMethod timeToImpact =
     (case map_of defenseMethods defenseMethod of
        None \<Rightarrow> Inl (UnknownDefenseMethod defenseMethod)
      | Some method \<Rightarrow>
          (let asteroidMass = calculateAsteroidMass asteroidData;
               requiredDeltaV = calculateRequiredDeltaV asteroidData timeToImpact;
               achievableDeltaV =
                 (if defenseMethod = ''KINETIC_IMPACTOR''
                    then calculateKineticDeflection asteroidMass timeToImpact
                  else if defenseMethod = ''GRAVITY_TRACTOR''
                    then calculateGravityTractorDeflection asteroidMass timeToImpact
                  else if defenseMethod = ''NUCLEAR_DEVICE''
                    then calculateNuclearDeflection asteroidMass timeToImpact
                  else if defenseMethod = ''LASER_ABLATION''
                    then calculateLaserDeflection asteroidMass timeToImpact
                  else if defenseMethod = ''ION_BEAM''
                    then calculateIonBeamDeflection asteroidMass timeToImpact
                  else Num 0);
               achievableDeltaV = js_mul achievableDeltaV (Num (dm_effectiveness method));
               successProbability = dm_successRate method * calculateTimeFactor timeToImpact;
               willMiss = js_ge achievableDeltaV requiredDeltaV
           in Inr \<lparr>df_method = dm_name method,
                    df_description = dm_description method,
                    df_successProbability = toFixed1 (successProbability * 100) @ ''%'',
                    df_willMiss = willMiss,
                    df_timeRequired = dm_developmentTime method,
                    df_technologyReadiness = dm_technologyReadiness method\<rparr>))"

subsection \<open>The plan\<close>

definition calculateThreatScore :: "asteroid \<Rightarrow> real" where
  "calculateThreatScore a =
     (let probability = or_default (impactProbability a) 0;
          diameter = or_default (diameter a) (1 / 10);
          velocity = or_default (velocity a) 20
      in probability * diameter ^ 2 * velocity ^ 2)"

definition calculateThreatLevel :: "asteroid \<Rightarrow> string" where
  "calculateThreatLevel a =
     (let score = calculateThreatScore a in
      if score > 1000 then ''CATASTROPHIC''
      else if score > 100 then ''SEVERE''
      else if score > 10 then ''HIGH''
      else if score > 1 then ''MEDIUM''
      else ''LOW'')"

text \<open>
  \<open>prioritizeThreats\<close> calls \<open>sort\<close> on its argument with the comparator
  \<open>scoreB - scoreA\<close>. \<open>Array.prototype.sort\<close> is stable and the scores are reals, so the
  result is the stable sort by descending score: \<open>sort_key\<close> on the negated score. The
  array sorted is the caller's own, and it is the array returned.
\<close>

definition prioritizeThreats :: "asteroid list \<Rightarrow> asteroid list" where
  "prioritizeThreats asteroidThreats =
     sort_key (\<lambda>a. - calculateThreatScore a) asteroidThreats"

text \<open>
  The \<open>forEach\<close> of \<open>selectBestMethod\<close> over the keys of the catalog, each with its entry;
  \<open>bestMethod\<close> and \<open>bestScore\<close> are the two variables it assigns. The score multiplies
  the text \<open>deflection.successProbability\<close> by two numbers.
\<close>

fun selectBestMethod_loop ::
  "asteroid \<Rightarrow> real \<Rightarrow> real \<Rightarrow> (string \<times> defenseMethod) list \<Rightarrow> string option \<Rightarrow> jsnum
     \<Rightarrow> error + string option" where
  "selectBestMethod_loop a timeHorizon availableBudget [] bestMethod bestScore = Inr bestMethod"
| "selectBestMethod_loop a timeHorizon availableBudget ((method, methodData) # rest)
       bestMethod bestScore =
     (if dm_cost methodData > availableBudget
      then selectBestMethod_loop a timeHorizon availableBudget rest bestMethod bestScore
      else
        (case calculateDeflection a method timeHorizon of
           Inl e \<Rightarrow> Inl e
         | Inr deflection \<Rightarrow>
             (let score =
                    js_mul
                      (js_mul (string_to_number (df_successProbability deflection))
                              (Num (if df_willMiss deflection then 1 else 1 / 2)))
                      (Num (dm_technologyReadiness methodData / 10))
              in if js_gt score bestScore
                 then selectBestMethod_loop a timeHorizon availableBudget rest (Some method) score
                 else selectBestMethod_loop a timeHorizon availableBudget rest
                        bestMethod bestScore)))"

definition selectBestMethod :: "asteroid \<Rightarrow> real \<Rightarrow> real \<Rightarrow> error + string option" where
  "selectBestMethod a timeHorizon availableBudget =
     selectBestMethod_loop a timeHorizon availableBudget defenseMethods None (Num (- 1))"

record mission =
  ms_year :: nat
  ms_asteroid :: "string option"
  ms_method :: string
  ms_cost :: real
  ms_successProbability :: string
  ms_threatLevel :: string

text \<open>
  The plan while the loop runs, and the plan returned, which adds \<open>efficiency\<close>. The
  fields \<open>successProbability\<close> and \<open>resourceAllocation\<close> of the returned plan are texts
  formatted from the timeline and from \<open>totalCost\<close> after the loop, and are left out.
\<close>

record defensePlan =
  timeline :: "mission list"
  totalCost :: real
  remainingBudget :: real
  threatsMitigated :: nat

record returnedPlan = defensePlan +
  efficiency :: jsnum

text \<open>
  The \<open>forEach\<close> of \<open>generateDefensePlan\<close> over the prioritized threats, with its index.
  \<open>currentYear\<close> stands for \<open>new Date().getFullYear()\<close>. A string is truthy when it is
  not empty.
\<close>

fun generateDefensePlan_loop ::
  "nat \<Rightarrow> real \<Rightarrow> nat \<Rightarrow> asteroid list \<Rightarrow> defensePlan \<Rightarrow> error + defensePlan" where
  "generateDefensePlan_loop currentYear timeHorizon index [] plan = Inr plan"
| "generateDefensePlan_loop currentYear timeHorizon index (threat # rest) plan =
     (case selectBestMethod threat timeHorizon (remainingBudget plan) of
        Inl e \<Rightarrow> Inl e
      | Inr None \<Rightarrow> generateDefensePlan_loop currentYear timeHorizon (index + 1) rest plan
      | Inr (Some bestMethod) \<Rightarrow>
          (if bestMethod \<noteq> [] \<and> remainingBudget plan > 0
           then
             (case calculateDeflection threat bestMethod timeHorizon of
                Inl e \<Rightarrow> Inl e
              | Inr deflection \<Rightarrow>
                  (case map_of defenseMethods bestMethod of
                     None \<Rightarrow> Inl TypeError
                   | Some methodData \<Rightarrow>
                       (let cost = dm_cost methodData in
                        if cost \<le> remainingBudget plan
                        then generateDefensePlan_loop currentYear timeHorizon (index + 1) rest
                               (plan\<lparr>timeline := timeline plan @
                                        [\<lparr>ms_year = currentYear + index,
                                          ms_asteroid = name threat,
                                          ms_method = bestMethod,
                                          ms_cost = cost,
                                          ms_successProbability =
                                            df_successProbability deflection,
                                          ms_threatLevel = calculateThreatLevel threat\<rparr>],
                                      totalCost := totalCost plan + cost,
                                      remainingBudget := remainingBudget plan - cost,
                                      threatsMitigated := threatsMitigated plan + 1\<rparr>)
                        else generateDefensePlan_loop currentYear timeHorizon (index + 1) rest
                               plan)))
           else generateDefensePlan_loop currentYear timeHorizon (index + 1) rest plan))"

text \<open>
  \<open>generateDefensePlan\<close> returns the plan, or the error thrown on the way, and leaves the
  caller's array changed: the first component is that array after the call.
\<close>

definition generateDefensePlan ::
  "nat \<Rightarrow> asteroid list \<Rightarrow> real \<Rightarrow> real \<Rightarrow> asteroid list \<times> (error + returnedPlan)" where
  "generateDefensePlan currentYear asteroidThreats budget timeHorizon =
     (let prioritizedThreats = prioritizeThreats asteroidThreats;
          defensePlan = \<lparr>timeline = [], totalCost = 0, remainingBudget = budget,
                         threatsMitigated = 0\<rparr>
      in (prioritizedThreats,
          case generateDefensePlan_loop currentYear timeHorizon 0 prioritizedThreats defensePlan of
            Inl e \<Rightarrow> Inl e
          | Inr plan \<Rightarrow>
              Inr \<lparr>timeline = timeline plan, totalCost = totalCost plan,
                   remainingBudget = remainingBudget plan,
                   threatsMitigated = threatsMitigated plan,
                   efficiency =
                     js_mul (js_div (Num (real (threatsMitigated plan)))
                                    (Num (real (length prioritizedThreats))))
                            (Num 100)\<rparr>))"

subsection \<open>Test fixtures and predicates of the statements\<close>

definition apophis :: asteroid where
  "apophis = \<lparr>name = Some ''Apophis'', diameter = Some 1, velocity = Some 20,
               composition = Some ''stony'', impactProbability = Some (1 / 2)\<rparr>"

definition bennu :: asteroid where
  "bennu = \<lparr>name = Some ''Bennu'', diameter = Some (1 / 2), velocity = Some 10,
             composition = Some ''carbonaceous'', impactProbability = Some (1 / 10)\<rparr>"

text \<open>
  The invariant of the planning loop: the costs of the timeline add up to \<open>totalCost\<close>,
  the remaining budget is the budget less \<open>totalCost\<close>, and it is not negative.
\<close>

definition plan_ok :: "real \<Rightarrow> defensePlan \<Rightarrow> bool" where
  "plan_ok budget plan =
     (sum_list (map ms_cost (timeline plan)) = totalCost plan
      \<and> remainingBudget plan = budget - totalCost plan
      \<and> 0 \<le> remainingBudget plan)"

section \<open>Properties of the impact physics\<close>

lemma pi_ge_three: "3 \<le> pi"
proof -
  have "sin (pi / 6) \<le> pi / 6" by (rule sin_x_le_x) simp
  then show ?thesis by (simp add: sin_30)
qed

lemma calculateKineticEnergy_closed:
  "calculateKineticEnergy d v c =
     getMaterialProperty (case c of None \<Rightarrow> ''rock'' | Some c \<Rightarrow> c) density
       * (250000000000000 / 3) * pi * d ^ 3 * v ^ 2"
  by (simp add: calculateKineticEnergy_def Let_def power_mult_distrib power_divide)

lemma density_stony: "getMaterialProperty ''stony'' density = 3000"
  by (simp add: getMaterialProperty_def materialProperties_def rock_def)

text \<open>
  C3, as the claim states it, fails: for diameter 1 km, velocity 20 km/s and composition
  \<open>stony\<close> the energy returned is neither about \<open>3.14e17\<close> J nor about \<open>6.28e20\<close> J; it
  is above \<open>4e17\<close> and below \<open>6e20\<close>.
\<close>

theorem kineticEnergy_example_counterexample:
  "\<not> calculateKineticEnergy 1 20 (Some ''stony'') \<le> 4 * 10 ^ 17
   \<and> \<not> 6 * 10 ^ 20 \<le> calculateKineticEnergy 1 20 (Some ''stony'')"
proof -
  have e: "calculateKineticEnergy 1 20 (Some ''stony'') = pi * 10 ^ 20"
    by (simp add: calculateKineticEnergy_closed density_stony)
  have "pi * 10 ^ 20 < 4 * 10 ^ 20" using pi_less_4 by simp
  moreover have "3 * 10 ^ 20 \<le> pi * 10 ^ 20" using pi_ge_three by simp
  ultimately show ?thesis unfolding e by simp
qed

text \<open>
  C3, amended. For diameter 1 km, velocity 20 km/s and composition \<open>stony\<close>,
  \<open>calculateKineticEnergy\<close> follows its formula chain: density 3000 (the entry of
  \<open>rock\<close>, since \<open>stony\<close> is not a key of the table), radius 500 m, mass
  \<open>3000 * (4/3) * pi * 500^3 = 5e11 * pi\<close> kg (about \<open>1.57e12\<close>), speed 20000 m/s, and
  energy \<open>0.5 * mass * 4e8 = pi * 1e20\<close> J, between \<open>3e20\<close> and \<open>4e20\<close> (about
  \<open>3.14e20\<close>).
\<close>

theorem kineticEnergy_example:
  "getMaterialProperty ''stony'' density = 3000
   \<and> calculateKineticEnergy 1 20 (Some ''stony'')
       = (1 / 2) * (3000 * ((4 / 3) * pi * 500 ^ 3)) * 20000 ^ 2
   \<and> 3000 * ((4 / 3) * pi * 500 ^ 3) = 5 * 10 ^ 11 * pi
   \<and> calculateKineticEnergy 1 20 (Some ''stony'') = pi * 10 ^ 20
   \<and> 3 * 10 ^ 20 \<le> calculateKineticEnergy 1 20 (Some ''stony'')
   \<and> calculateKineticEnergy 1 20 (Some ''stony'') < 4 * 10 ^ 20"
proof -
  have e: "calculateKineticEnergy 1 20 (Some ''stony'') = pi * 10 ^ 20"
    by (simp add: calculateKineticEnergy_closed density_stony)
  have lo: "3 * 10 ^ 20 \<le> pi * 10 ^ 20" using pi_ge_three by simp
  have hi: "pi * 10 ^ 20 < 4 * 10 ^ 20" using pi_less_4 by simp
  show ?thesis unfolding e using lo hi by (simp add: density_stony)
qed

text \<open>
  C8. With the composition fixed, the kinetic energy is homogeneous of degree 2 in the
  velocity and of degree 3 in the diameter: doubling the velocity multiplies it by 4,
  doubling the diameter by 8 (for every diameter and velocity, positive or not).
\<close>

theorem kineticEnergy_homogeneous:
  "calculateKineticEnergy d (2 * v) c = 4 * calculateKineticEnergy d v c
   \<and> calculateKineticEnergy (2 * d) v c = 8 * calculateKineticEnergy d v c"
  by (simp add: calculateKineticEnergy_closed power_mult_distrib)

text \<open>
  C6. The Torino-like rating does not depend on the diameter and is at most 9. With the
  energy given in megatons: a probability below 0.0001 gives 0; otherwise an energy
  below 0.1 MT gives 1; otherwise the bands below 10 MT, below 100 MT, below 1000 MT and
  from 1000 MT on give 2, 4, 6 and 8, and one more exactly when the probability exceeds
  0.01.
\<close>

theorem calculateTorinoScale_bands:
  "calculateTorinoScale d p e = calculateTorinoScale d' p e
   \<and> calculateTorinoScale d p e \<le> 9
   \<and> (p < 1 / 10000 \<longrightarrow> calculateTorinoScale d p (mt * MEGATON_TNT) = 0)
   \<and> (1 / 10000 \<le> p \<and> mt < 1 / 10 \<longrightarrow> calculateTorinoScale d p (mt * MEGATON_TNT) = 1)
   \<and> (1 / 10000 \<le> p \<and> 1 / 10 \<le> mt \<and> mt < 10 \<longrightarrow>
        calculateTorinoScale d p (mt * MEGATON_TNT) = (if 1 / 100 < p then 3 else 2))
   \<and> (1 / 10000 \<le> p \<and> 10 \<le> mt \<and> mt < 100 \<longrightarrow>
        calculateTorinoScale d p (mt * MEGATON_TNT) = (if 1 / 100 < p then 5 else 4))
   \<and> (1 / 10000 \<le> p \<and> 100 \<le> mt \<and> mt < 1000 \<longrightarrow>
        calculateTorinoScale d p (mt * MEGATON_TNT) = (if 1 / 100 < p then 7 else 6))
   \<and> (1 / 10000 \<le> p \<and> 1000 \<le> mt \<longrightarrow>
        calculateTorinoScale d p (mt * MEGATON_TNT) = (if 1 / 100 < p then 9 else 8))"
proof -
  have mt: "mt * MEGATON_TNT / MEGATON_TNT = mt" by (simp add: MEGATON_TNT_def)
  have a: "calculateTorinoScale d p e = calculateTorinoScale d' p e"
    by (simp add: calculateTorinoScale_def)
  have b: "calculateTorinoScale d p e \<le> 9"
    by (simp add: calculateTorinoScale_def Let_def)
  have c: "calculateTorinoScale d p (mt * MEGATON_TNT) =
      (if p < 1 / 10000 then 0
       else if mt < 1 / 10 then 1
       else if mt < 10 then (if 1 / 100 < p then 3 else 2)
       else if mt < 100 then (if 1 / 100 < p then 5 else 4)
       else if mt < 1000 then (if 1 / 100 < p then 7 else 6)
       else (if 1 / 100 < p then 9 else 8))"
    unfolding calculateTorinoScale_def Let_def mt by simp
  show ?thesis unfolding c using a b by auto
qed

theorem calculateTorinoScale_bands_witness:
  "calculateTorinoScale 1 (1 / 2) (50 * MEGATON_TNT) = 5
   \<and> calculateTorinoScale 1 (1 / 100) (1 / 10 * MEGATON_TNT) = 2
   \<and> calculateTorinoScale 1 (1 / 10000) (1000 * MEGATON_TNT) = 8
   \<and> calculateTorinoScale 1 (1 / 20000) (1000 * MEGATON_TNT) = 0"
  using calculateTorinoScale_bands [of 1 "1 / 2" 0 1 50]
    calculateTorinoScale_bands [of 1 "1 / 100" 0 1 "1 / 10"]
    calculateTorinoScale_bands [of 1 "1 / 10000" 0 1 1000]
    calculateTorinoScale_bands [of 1 "1 / 20000" 0 1 1000]
  by simp

section \<open>Properties of the propagator\<close>

subsection \<open>Rotations keep the distance from the origin\<close>








subsection \<open>What one call changes\<close>

lemma updateBodyPosition_fields [simp]:
  "orbitalBodies (updateBodyPosition s i) = orbitalBodies s"
  "earthCenter (updateBodyPosition s i) = earthCenter s"
  by (simp_all add: updateBodyPosition_def split: option.splits)

lemma updateBodyPosition_written:
  "map_of (orbitalBodies s) i = Some b \<Longrightarrow>
   positions (updateBodyPosition s i) (object3D b)
     = orbit_point (earthCenter s) (orbit b) (currentAnomaly b)"
  by (simp add: updateBodyPosition_def)



lemma updateOrbitalBody_earthCenter [simp]:
  "earthCenter (updateOrbitalBody s i dt) = earthCenter s"
  by (simp add: updateOrbitalBody_def Let_def split: option.splits)

lemma updateOrbitalBody_written:
  assumes "map_of (orbitalBodies s) i = Some b"
  shows "positions (updateOrbitalBody s i dt) (object3D b) =
           orbit_point (earthCenter s) (orbit b)
             (wrap_up (wrap_down (currentAnomaly b + angularVelocity (orbit b) * dt)))"
  using assms by (simp add: updateOrbitalBody_def Let_def updateBodyPosition_def update_conv')

subsection \<open>The two while statements\<close>


lemma wrap_down_nonneg: "0 \<le> x \<Longrightarrow> 0 \<le> wrap_down x"
proof (induction x rule: wrap_down.induct)
  case (1 x)
  show ?case
  proof (cases "2 * pi < x")
    case True
    then have "0 \<le> wrap_down (x - 2 * pi)" using 1 by simp
    then show ?thesis using True by (subst wrap_down.simps) simp
  next
    case False
    then show ?thesis using 1 by (subst wrap_down.simps) simp
  qed
qed








subsection \<open>Registration\<close>

lemma registerOrbitalBody_entry:
  "map_of (orbitalBodies (registerOrbitalBody s i obj p)) i =
     Some \<lparr>object3D = obj,
           orbit = \<lparr>semiMajorAxis = (case p_semiMajorAxis p of None \<Rightarrow> 3 | Some v \<Rightarrow> v),
                 eccentricity = (case p_eccentricity p of None \<Rightarrow> 0 | Some v \<Rightarrow> v),
                 inclination = (case p_inclination p of None \<Rightarrow> 0 | Some v \<Rightarrow> v),
                 argumentOfPeriapsis =
                   (case p_argumentOfPeriapsis p of None \<Rightarrow> 0 | Some v \<Rightarrow> v),
                 longitudeOfAscendingNode =
                   (case p_longitudeOfAscendingNode p of None \<Rightarrow> 0 | Some v \<Rightarrow> v),
                 trueAnomaly = (case p_trueAnomaly p of None \<Rightarrow> 0 | Some v \<Rightarrow> v),
                 orbitalPeriod = (case p_orbitalPeriod p of None \<Rightarrow> 100 | Some v \<Rightarrow> v),
                 clockwise = (case p_clockwise p of None \<Rightarrow> False | Some v \<Rightarrow> v),
                 angularVelocity =
                   (if (case p_clockwise p of None \<Rightarrow> False | Some v \<Rightarrow> v)
                    then 2 * pi / (case p_orbitalPeriod p of None \<Rightarrow> 100 | Some v \<Rightarrow> v) * (- 1)
                    else 2 * pi / (case p_orbitalPeriod p of None \<Rightarrow> 100 | Some v \<Rightarrow> v))\<rparr>,
           currentAnomaly = (case p_trueAnomaly p of None \<Rightarrow> 0 | Some v \<Rightarrow> v),
           lastUpdate = 0\<rparr>"
  by (simp add: registerOrbitalBody_def Let_def update_conv')

lemma registerOrbitalBody_earthCenter [simp]:
  "earthCenter (registerOrbitalBody s i obj p) = earthCenter s"
  by (simp add: registerOrbitalBody_def Let_def)




text \<open>
  C2, as the claim states it, fails: \<open>registerOrbitalBody\<close> has no check and no error.
  A body registered with semi-major axis \<open>-1\<close>, with period \<open>-1\<close> or with eccentricity
  \<open>3/2\<close> is in the registry afterwards, with that element stored.
\<close>

theorem registerOrbitalBody_invalid_counterexample:
  "map_option (semiMajorAxis \<circ> orbit)
     (getOrbitalData
        (registerOrbitalBody (new_OrbitalMechanics initial_objects) ''b'' 0
           (defaults\<lparr>p_semiMajorAxis := Some (- 1)\<rparr>)) ''b'') = Some (- 1)
   \<and> map_option (orbitalPeriod \<circ> orbit)
     (getOrbitalData
        (registerOrbitalBody (new_OrbitalMechanics initial_objects) ''b'' 0
           (defaults\<lparr>p_orbitalPeriod := Some (- 1)\<rparr>)) ''b'') = Some (- 1)
   \<and> map_option (eccentricity \<circ> orbit)
     (getOrbitalData
        (registerOrbitalBody (new_OrbitalMechanics initial_objects) ''b'' 0
           (defaults\<lparr>p_eccentricity := Some (3 / 2)\<rparr>)) ''b'') = Some (3 / 2)"
  by (simp add: getOrbitalData_def registerOrbitalBody_entry defaults_def)

text \<open>
  C2, amended. \<open>registerOrbitalBody\<close> validates nothing and raises no error: for every
  input, whatever the semi-major axis, the period and the eccentricity, the body is
  registered under its id with its object and each of the eight elements as given (the
  default for an absent one), its current anomaly the initial true anomaly and its
  elapsed time 0.
\<close>

theorem registerOrbitalBody_registers:
  "\<exists>b. getOrbitalData (registerOrbitalBody s ident obj p) ident = Some b
     \<and> object3D b = obj
     \<and> semiMajorAxis (orbit b) = (case p_semiMajorAxis p of None \<Rightarrow> 3 | Some v \<Rightarrow> v)
     \<and> eccentricity (orbit b) = (case p_eccentricity p of None \<Rightarrow> 0 | Some v \<Rightarrow> v)
     \<and> inclination (orbit b) = (case p_inclination p of None \<Rightarrow> 0 | Some v \<Rightarrow> v)
     \<and> argumentOfPeriapsis (orbit b)
         = (case p_argumentOfPeriapsis p of None \<Rightarrow> 0 | Some v \<Rightarrow> v)
     \<and> longitudeOfAscendingNode (orbit b)
         = (case p_longitudeOfAscendingNode p of None \<Rightarrow> 0 | Some v \<Rightarrow> v)
     \<and> orbitalPeriod (orbit b) = (case p_orbitalPeriod p of None \<Rightarrow> 100 | Some v \<Rightarrow> v)
     \<and> clockwise (orbit b) = (case p_clockwise p of None \<Rightarrow> False | Some v \<Rightarrow> v)
     \<and> trueAnomaly (orbit b) = (case p_trueAnomaly p of None \<Rightarrow> 0 | Some v \<Rightarrow> v)
     \<and> currentAnomaly b = trueAnomaly (orbit b)
     \<and> lastUpdate b = 0"
  by (simp add: getOrbitalData_def registerOrbitalBody_entry)

subsection \<open>Unknown ids\<close>

text \<open>
  C9. For an id that is not in the registry, \<open>updateOrbitalBody\<close>, \<open>updateBodyPosition\<close>
  and \<open>removeOrbitalBody\<close> return the propagator unchanged (registry, positions and
  centre), \<open>createOrbitPath\<close> and \<open>getOrbitalData\<close> return nothing, and no call has an
  error to raise; removing an id twice is removing it once.
\<close>

theorem unknown_id_no_op:
  assumes "map_of (orbitalBodies s) ident = None"
  shows "updateOrbitalBody s ident deltaTime = s
       \<and> updateBodyPosition s ident = s
       \<and> createOrbitPath s ident segments = None
       \<and> getOrbitalData s ident = None
       \<and> removeOrbitalBody s ident = s
       \<and> removeOrbitalBody (removeOrbitalBody s' ident) ident = removeOrbitalBody s' ident"
proof -
  have "ident \<notin> fst ` set (orbitalBodies s)" using assms by (simp add: map_of_eq_None_iff)
  then have "AList.delete ident (orbitalBodies s) = orbitalBodies s" by simp
  then have r: "removeOrbitalBody s ident = s" by (simp add: removeOrbitalBody_def)
  have i: "removeOrbitalBody (removeOrbitalBody s' ident) ident = removeOrbitalBody s' ident"
    by (simp add: removeOrbitalBody_def delete_idem)
  show ?thesis using assms r i
    by (simp add: updateOrbitalBody_def updateBodyPosition_def createOrbitPath_def
        getOrbitalData_def)
qed

text \<open>The witness: a propagator that holds \<open>moon\<close> is asked about \<open>apophis\<close>.\<close>

theorem unknown_id_no_op_witness:
  "map_of (orbitalBodies
       (registerOrbitalBody (new_OrbitalMechanics initial_objects) ''moon'' 0 defaults)) ''apophis''
     = None
   \<and> updateOrbitalBody
       (registerOrbitalBody (new_OrbitalMechanics initial_objects) ''moon'' 0 defaults) ''apophis'' 5
     = registerOrbitalBody (new_OrbitalMechanics initial_objects) ''moon'' 0 defaults
   \<and> removeOrbitalBody
       (registerOrbitalBody (new_OrbitalMechanics initial_objects) ''moon'' 0 defaults) ''apophis''
     = registerOrbitalBody (new_OrbitalMechanics initial_objects) ''moon'' 0 defaults"
proof -
  have h: "map_of (orbitalBodies
       (registerOrbitalBody (new_OrbitalMechanics initial_objects) ''moon'' 0 defaults)) ''apophis''
     = None"
    by (simp add: registerOrbitalBody_def Let_def new_OrbitalMechanics_def)
  show ?thesis using h unknown_id_no_op [OF h] by simp
qed

subsection \<open>The anomaly after an advance\<close>










subsection \<open>The distance from the origin and the return after one period\<close>









section \<open>Properties of the planner\<close>

subsection \<open>A percentage read as a number\<close>

lemma dropWhile_keeps: "x \<in> set s \<Longrightarrow> \<not> P x \<Longrightarrow> x \<in> set (dropWhile P s)"
  by (induction s) auto

lemma parse_decimal_percent: "CHR ''%'' \<in> set u \<Longrightarrow> parse_decimal u = NaN"
proof -
  assume m: "CHR ''%'' \<in> set u"
  have nd: "\<not> is_digit CHR ''%''" by (simp add: is_digit_def)
  from m nd have r: "CHR ''%'' \<in> set (dropWhile is_digit u)" by (rule dropWhile_keeps)
  show ?thesis
  proof (cases "dropWhile is_digit u")
    case Nil
    with r show ?thesis by simp
  next
    case (Cons c fp)
    show ?thesis
    proof (cases "c = CHR ''.''")
      case True
      with r Cons have "CHR ''%'' \<in> set fp" by auto
      with nd have "\<not> list_all is_digit fp" by (auto simp: list_all_iff)
      with Cons show ?thesis by (simp add: parse_decimal_def)
    next
      case False
      with Cons show ?thesis by (simp add: parse_decimal_def)
    qed
  qed
qed

lemma string_to_number_percent: "CHR ''%'' \<in> set s \<Longrightarrow> string_to_number s = NaN"
proof -
  assume m: "CHR ''%'' \<in> set s"
  have ns: "\<not> is_space CHR ''%''" by (simp add: is_space_def)
  let ?t = "rev (dropWhile is_space (rev (dropWhile is_space s)))"
  have "CHR ''%'' \<in> set (dropWhile is_space s)" using m ns by (rule dropWhile_keeps)
  then have "CHR ''%'' \<in> set (rev (dropWhile is_space s))" by simp
  then have "CHR ''%'' \<in> set (dropWhile is_space (rev (dropWhile is_space s)))"
    using ns by (rule dropWhile_keeps)
  then have t: "CHR ''%'' \<in> set ?t" by simp
  show ?thesis
  proof (cases ?t)
    case Nil
    with t show ?thesis by simp
  next
    case (Cons c u)
    have pt: "parse_decimal ?t = NaN" using t by (rule parse_decimal_percent)
    show ?thesis
    proof (cases "c = CHR ''-'' \<or> c = CHR ''+''")
      case True
      with t Cons have "CHR ''%'' \<in> set u" by auto
      then have "parse_decimal u = NaN" by (rule parse_decimal_percent)
      with Cons True show ?thesis by (auto simp add: string_to_number_def Let_def)
    next
      case False
      with Cons pt show ?thesis by (simp add: string_to_number_def Let_def)
    qed
  qed
qed

lemma calculateDeflection_text:
  "calculateDeflection a m t = Inr d \<Longrightarrow> string_to_number (df_successProbability d) = NaN"
  by (auto simp: calculateDeflection_def Let_def string_to_number_percent split: option.splits)

subsection \<open>The selection loop\<close>

lemma calculateDeflection_known:
  "map_of defenseMethods m \<noteq> None \<Longrightarrow> \<exists>d. calculateDeflection a m t = Inr d"
  by (auto simp: calculateDeflection_def Let_def)

lemma catalog_keys: "p \<in> set defenseMethods \<Longrightarrow> map_of defenseMethods (fst p) \<noteq> None"
  by (metis map_of_eq_None_iff image_eqI)

lemma selectBestMethod_loop_total:
  assumes "\<forall>p \<in> set ms. map_of defenseMethods (fst p) \<noteq> None"
  shows "\<exists>r. selectBestMethod_loop a t b ms bm bs = Inr r \<and> (r = bm \<or> r \<in> Some ` fst ` set ms)"
  using assms
proof (induction ms arbitrary: bm bs)
  case Nil
  then show ?case by simp
next
  case (Cons p ms)
  obtain m md where p: "p = (m, md)" by (cases p)
  have known: "map_of defenseMethods m \<noteq> None" using Cons.prems by (simp add: p)
  then obtain d where d: "calculateDeflection a m t = Inr d"
    using calculateDeflection_known by blast
  have rest: "\<forall>p \<in> set ms. map_of defenseMethods (fst p) \<noteq> None" using Cons.prems by simp
  let ?score = "js_mul
      (js_mul (string_to_number (df_successProbability d))
              (Num (if df_willMiss d then 1 else 1 / 2)))
      (Num (dm_technologyReadiness md / 10))"
  have step: "selectBestMethod_loop a t b (p # ms) bm bs =
      (if dm_cost md > b then selectBestMethod_loop a t b ms bm bs
       else if js_gt ?score bs then selectBestMethod_loop a t b ms (Some m) ?score
       else selectBestMethod_loop a t b ms bm bs)"
    by (simp add: p d Let_def)
  from Cons.IH [OF rest, of bm bs] obtain r1 where
    r1: "selectBestMethod_loop a t b ms bm bs = Inr r1" "r1 = bm \<or> r1 \<in> Some ` fst ` set ms"
    by blast
  from Cons.IH [OF rest, of "Some m" ?score] obtain r2 where
    r2: "selectBestMethod_loop a t b ms (Some m) ?score = Inr r2"
      "r2 = Some m \<or> r2 \<in> Some ` fst ` set ms"
    by blast
  show ?case unfolding step using r1 r2 by (auto simp: p)
qed

lemma selectBestMethod_total:
  "\<exists>r. selectBestMethod a t b = Inr r
      \<and> (r = None \<or> (\<exists>m. r = Some m \<and> map_of defenseMethods m \<noteq> None))"
proof -
  have "\<forall>p \<in> set defenseMethods. map_of defenseMethods (fst p) \<noteq> None"
    using catalog_keys by blast
  from selectBestMethod_loop_total [OF this, of a t b None "Num (- 1)"]
  obtain r where r: "selectBestMethod a t b = Inr r"
    and c: "r = None \<or> r \<in> Some ` fst ` set defenseMethods"
    unfolding selectBestMethod_def by blast
  from c have "r = None \<or> (\<exists>m. r = Some m \<and> map_of defenseMethods m \<noteq> None)"
    using catalog_keys by auto
  with r show ?thesis by blast
qed

lemma selectBestMethod_loop_NaN:
  assumes "\<forall>p \<in> set ms. map_of defenseMethods (fst p) \<noteq> None"
  shows "selectBestMethod_loop a t b ms bm bs = Inr bm"
  using assms
proof (induction ms)
  case Nil
  then show ?case by simp
next
  case (Cons p ms)
  obtain m md where p: "p = (m, md)" by (cases p)
  have known: "map_of defenseMethods m \<noteq> None" using Cons.prems by (simp add: p)
  then obtain d where d: "calculateDeflection a m t = Inr d"
    using calculateDeflection_known by blast
  have nan: "string_to_number (df_successProbability d) = NaN"
    using d by (rule calculateDeflection_text)
  show ?case using Cons by (simp add: p d nan Let_def)
qed

lemma selectBestMethod_null: "selectBestMethod a t b = Inr None"
proof -
  have "\<forall>p \<in> set defenseMethods. map_of defenseMethods (fst p) \<noteq> None"
    using catalog_keys by blast
  then show ?thesis unfolding selectBestMethod_def by (rule selectBestMethod_loop_NaN)
qed

lemma generateDefensePlan_loop_idle: "generateDefensePlan_loop y t i threats plan = Inr plan"
  by (induction threats arbitrary: i) (simp_all add: selectBestMethod_null)

text \<open>
  C1 fails on the code. \<open>selectBestMethod\<close> multiplies the text
  \<open>deflection.successProbability\<close> (a percentage such as \<open>76.5%\<close>) by two numbers; the
  product is \<open>NaN\<close>, no score is greater than the initial \<open>-1\<close>, and the method
  returned is \<open>null\<close> for every asteroid, time horizon and budget. So the plan commits
  nothing, whatever the threats and the budget. At the failing input, one asteroid of
  1 km at 20 km/s with a budget of 10000 that affords every method of the catalog, the
  timeline is empty and the whole budget remains.
\<close>

theorem selectBestMethod_selects_nothing:
  "selectBestMethod a timeHorizon availableBudget = Inr None
   \<and> (\<exists>plan. snd (generateDefensePlan y threats budget timeHorizon) = Inr plan
         \<and> timeline plan = [] \<and> totalCost plan = 0 \<and> threatsMitigated plan = 0)
   \<and> list_all (\<lambda>p. dm_cost (snd p) \<le> 10000) defenseMethods
   \<and> selectBestMethod apophis 10 10000 = Inr None
   \<and> snd (generateDefensePlan 2025 [apophis] 10000 10)
       = Inr \<lparr>timeline = [], totalCost = 0, remainingBudget = 10000, threatsMitigated = 0,
              efficiency = Num 0\<rparr>"
  by (simp add: selectBestMethod_null generateDefensePlan_def generateDefensePlan_loop_idle
      Let_def defenseMethods_def prioritizeThreats_def)

subsection \<open>The budget\<close>

lemma generateDefensePlan_loop_ok:
  "plan_ok budget plan \<Longrightarrow>
   \<exists>plan'. generateDefensePlan_loop y t i threats plan = Inr plan' \<and> plan_ok budget plan'"
proof (induction threats arbitrary: i plan)
  case Nil
  then show ?case by simp
next
  case (Cons threat rest)
  obtain r where r: "selectBestMethod threat t (remainingBudget plan) = Inr r"
    and c: "r = None \<or> (\<exists>m. r = Some m \<and> map_of defenseMethods m \<noteq> None)"
    using selectBestMethod_total by blast
  show ?case
  proof (cases r)
    case None
    then show ?thesis using r Cons.IH [OF Cons.prems] by simp
  next
    case (Some m)
    with c obtain md where md: "map_of defenseMethods m = Some md" by auto
    then obtain d where d: "calculateDeflection threat m t = Inr d"
      using calculateDeflection_known [of m threat t] by auto
    let ?plan1 = "plan\<lparr>timeline := timeline plan @
                        [\<lparr>ms_year = y + i, ms_asteroid = name threat, ms_method = m,
                          ms_cost = dm_cost md,
                          ms_successProbability = df_successProbability d,
                          ms_threatLevel = calculateThreatLevel threat\<rparr>],
                      totalCost := totalCost plan + dm_cost md,
                      remainingBudget := remainingBudget plan - dm_cost md,
                      threatsMitigated := threatsMitigated plan + 1\<rparr>"
    have ok1: "dm_cost md \<le> remainingBudget plan \<Longrightarrow> plan_ok budget ?plan1"
      using Cons.prems by (simp add: plan_ok_def)
    show ?thesis
      using r Some md d Cons.IH [OF Cons.prems] Cons.IH [of ?plan1] ok1
      by (simp add: Let_def)
  qed
qed

text \<open>
  C4. For every list of threats, every budget that is not negative and every time
  horizon, \<open>generateDefensePlan\<close> returns a plan (it throws nothing); the costs of the
  missions of its timeline add up to its \<open>totalCost\<close>, which does not exceed the
  budget, and its \<open>remainingBudget\<close> is the budget less \<open>totalCost\<close>.
\<close>

theorem plan_within_budget:
  assumes "0 \<le> budget"
  shows "\<exists>plan. snd (generateDefensePlan y threats budget timeHorizon) = Inr plan
           \<and> sum_list (map ms_cost (timeline plan)) = totalCost plan
           \<and> totalCost plan \<le> budget
           \<and> remainingBudget plan = budget - totalCost plan"
proof -
  let ?p0 = "\<lparr>timeline = [], totalCost = 0, remainingBudget = budget, threatsMitigated = 0\<rparr>"
  have "plan_ok budget ?p0" using assms by (simp add: plan_ok_def)
  then obtain plan' where
    l: "generateDefensePlan_loop y timeHorizon 0 (prioritizeThreats threats) ?p0 = Inr plan'"
    and ok: "plan_ok budget plan'"
    using generateDefensePlan_loop_ok by blast
  from ok have "totalCost plan' \<le> budget" by (simp add: plan_ok_def)
  with ok show ?thesis
    by (simp add: generateDefensePlan_def Let_def l plan_ok_def)
qed

theorem plan_within_budget_witness:
  "\<exists>plan. snd (generateDefensePlan 2025 [bennu, apophis] 1000 10) = Inr plan
      \<and> sum_list (map ms_cost (timeline plan)) = totalCost plan
      \<and> totalCost plan \<le> 1000
      \<and> remainingBudget plan = 1000 - totalCost plan"
  using plan_within_budget [of 1000 2025 "[bennu, apophis]" 10] by simp

subsection \<open>The caller's array\<close>

lemma sort_two: "prioritizeThreats [bennu, apophis] = [apophis, bennu]"
  by (simp add: prioritizeThreats_def calculateThreatScore_def or_default_def bennu_def
      apophis_def power2_eq_square)

text \<open>
  C10. \<open>generateDefensePlan\<close> sorts the array it is given: after the call the caller's
  array holds the same threats in descending order of threat score. It is not left as
  it was: given Bennu before Apophis, it holds Apophis before Bennu afterwards.
\<close>

theorem threats_sorted_in_place:
  "sorted_wrt (\<lambda>a b. calculateThreatScore b \<le> calculateThreatScore a)
     (fst (generateDefensePlan y threats budget timeHorizon))
   \<and> mset (fst (generateDefensePlan y threats budget timeHorizon)) = mset threats
   \<and> fst (generateDefensePlan 2025 [bennu, apophis] 1000 10) = [apophis, bennu]"
proof -
  have f: "fst (generateDefensePlan y' ts b' t') = prioritizeThreats ts" for y' ts b' t'
    by (simp add: generateDefensePlan_def Let_def)
  have "sorted (map (\<lambda>a. - calculateThreatScore a) (prioritizeThreats threats))"
    unfolding prioritizeThreats_def by (rule sorted_sort_key)
  then have s: "sorted_wrt (\<lambda>a b. calculateThreatScore b \<le> calculateThreatScore a)
      (prioritizeThreats threats)"
    by (simp add: sorted_map)
  have m: "mset (prioritizeThreats threats) = mset threats"
    by (simp add: prioritizeThreats_def)
  show ?thesis unfolding f using s m sort_two by simp
qed

end
